theory Spec2Isabelle
  imports Complex_Main "HOL-Library.Word"
begin

unbundle bit_operations_syntax

section \<open>Numbers and formatting\<close>

text \<open>
  Python integers are modelled as \<open>int\<close>. Python floats are modelled as \<open>real\<close>:
  the arithmetic is the source's, without rounding error and without the values
  \<open>nan\<close> and \<open>inf\<close>. A division whose divisor is zero raises
  \<open>ZeroDivisionError\<close> in Python, for floats as for integers; every such division is
  a branch of the model.
\<close>

datatype error = IndexError | ValueError | TypeError | ZeroDivisionError

text \<open>
  \<open>round(x)\<close> of a float, with no second argument, is the nearest integer, a tie going
  to the even neighbour.
\<close>

definition py_round :: "real \<Rightarrow> int" where
  "py_round x =
     (let f = \<lfloor>x\<rfloor>; d = x - of_int f
      in if d < 1 / 2 then f
         else if 1 / 2 < d then f + 1
         else if even f then f else f + 1)"

definition hexchar :: "nat \<Rightarrow> char" where
  "hexchar d = ''0123456789ABCDEF'' ! d"

text \<open>\<open>"%02X" % n\<close> for \<open>0 \<le> n\<close>: upper-case hexadecimal, padded with a zero to two digits.\<close>

function hex_digits :: "nat \<Rightarrow> string" where
  "hex_digits n = (if n < 16 then [hexchar n] else hex_digits (n div 16) @ [hexchar (n mod 16)])"
  by pat_completeness auto
termination
  by (relation "measure (\<lambda>n. n)") auto

declare hex_digits.simps [simp del]

definition fmt_02X :: "int \<Rightarrow> string" where
  "fmt_02X n =
     (if n < 0 then CHR ''-'' # hex_digits (nat (- n))
      else if n < 16 then CHR ''0'' # hex_digits (nat n)
      else hex_digits (nat n))"

section \<open>Colour conversion\<close>

definition ClipByte :: "real \<Rightarrow> int" where
  "ClipByte x = (if 255 < x then 255 else if x < 0 then 0 else py_round x)"

definition chanR :: "int \<Rightarrow> int" where
  "chanR RGB = drop_bit 16 RGB AND 255"

definition chanG :: "int \<Rightarrow> int" where
  "chanG RGB = drop_bit 8 RGB AND 255"

definition chanB :: "int \<Rightarrow> int" where
  "chanB RGB = RGB AND 255"

text \<open>The three channels of the BT.601 to BT.709 branch, before \<open>ClipByte\<close>.\<close>

definition bt709_1 :: "int \<Rightarrow> real" where
  "bt709_1 RGB =
     of_int (chanR RGB) * (956384088080656 / 10 ^ 17)
     + of_int (chanG RGB) * (3217254540203729 / 10 ^ 17)
     + of_int (chanB RGB) * (95826361371715607 / 10 ^ 17)"

definition bt709_2 :: "int \<Rightarrow> real" where
  "bt709_2 RGB =
     of_int (chanR RGB) * (- (10493933142075390 / 10 ^ 17))
     + of_int (chanG RGB) * (117231478191855154 / 10 ^ 17)
     + of_int (chanB RGB) * (- (6737545049779757 / 10 ^ 17))"

definition bt709_3 :: "int \<Rightarrow> real" where
  "bt709_3 RGB =
     of_int (chanR RGB) * (91348912373987645 / 10 ^ 17)
     + of_int (chanG RGB) * (7858536372532510 / 10 ^ 17)
     + of_int (chanB RGB) * (792551253479842 / 10 ^ 17)"

definition matrix_colour :: "int \<Rightarrow> string" where
  "matrix_colour RGB =
     fmt_02X (ClipByte (bt709_1 RGB)) @ fmt_02X (ClipByte (bt709_2 RGB))
     @ fmt_02X (ClipByte (bt709_3 RGB))"

definition swap_colour :: "int \<Rightarrow> string" where
  "swap_colour RGB = fmt_02X (chanB RGB) @ fmt_02X (chanG RGB) @ fmt_02X (chanR RGB)"

definition ConvertColor :: "int \<Rightarrow> int \<Rightarrow> int \<Rightarrow> string" where
  "ConvertColor RGB width height =
     (if RGB = 0x000000 then ''000000''
      else if RGB = 0xFFFFFF then ''FFFFFF''
      else if width < 1280 \<and> height < 576 then swap_colour RGB
      else matrix_colour RGB)"

section \<open>Comments and the lane grid\<close>

text \<open>
  The readers yield tuples \<open>(timeline, timestamp, no, comment, pos, color, size, height,
  width)\<close>; the field \<open>c_timeline\<close> is \<open>c[0]\<close>, and so on to \<open>c_width\<close>, which is
  \<open>c[8]\<close>. For a comment that takes a lane, \<open>c[4]\<close> is one of 0, 1, 2, 3: the modes
  \<open>Scroll\<close>, \<open>Top\<close>, \<open>Bottom\<close>, \<open>ScrollReverse\<close> in this order (1 is written with
  \<open>\an8\<close>, 2 with \<open>\an2\<close>).
\<close>

datatype mode = Scroll | Top | Bottom | ScrollReverse

record comment =
  c_timeline :: real
  c_timestamp :: int
  c_no :: int
  c_text :: string
  c_pos :: mode
  c_color :: int
  c_size :: real
  c_height :: real
  c_width :: real

text \<open>
  A comment whose \<open>c[4]\<close> is the string \<open>"bilipos"\<close> carries a JSON text in \<open>c[3]\<close>;
  \<open>ProcessComments\<close> reads its fields 0, 3, 5 and 6 only. Any other \<open>c[4]\<close> is
  reported as invalid, with \<open>c[3]\<close>.
\<close>

record positioned =
  p_timeline :: real
  p_text :: string
  p_color :: int
  p_size :: real

datatype entry = Regular comment | Bilipos positioned | Invalid string

text \<open>
  \<open>rows\<close> is a list of four lists, indexed by \<open>c[4]\<close> and then by the pixel row; a cell
  is \<open>None\<close> or the comment that occupies the row.
\<close>

type_synonym lane = "comment option list"
type_synonym grid = "mode \<Rightarrow> lane"

definition new_rows :: "int \<Rightarrow> int \<Rightarrow> grid" where
  "new_rows height bottomReserved = (\<lambda>m. replicate (nat (height - bottomReserved + 1)) None)"

section \<open>TestFreeRows\<close>

text \<open>
  The two \<open>while\<close> loops of \<open>TestFreeRows\<close> differ in the test of the occupant only; the
  loop is \<open>free_run\<close>, with the test as \<open>blocked\<close>. \<open>h\<close> is \<open>c[7]\<close>. Reading a cell
  beyond the end of the list raises \<open>IndexError\<close>.
\<close>

function free_run ::
  "(comment \<Rightarrow> bool) \<Rightarrow> lane \<Rightarrow> real \<Rightarrow> int \<Rightarrow> nat \<Rightarrow> nat \<Rightarrow> comment option \<Rightarrow> error + nat"
where
  "free_run blocked lane h rowmax row res targetRow =
     (if int row < rowmax \<and> real res < h then
        (if row < length lane then
           (if targetRow \<noteq> lane ! row then
              (case lane ! row of
                 None \<Rightarrow> free_run blocked lane h rowmax (Suc row) (Suc res) None
               | Some t \<Rightarrow>
                   if blocked t then Inr res
                   else free_run blocked lane h rowmax (Suc row) (Suc res) (Some t))
            else free_run blocked lane h rowmax (Suc row) (Suc res) targetRow)
         else Inl IndexError)
      else Inr res)"
  by pat_completeness auto
termination
  by (relation "measure (\<lambda>(blocked, lane, h, rowmax, row, res, targetRow). nat (rowmax - int row))")
    auto

declare free_run.simps [simp del]

definition still_blocked :: "comment \<Rightarrow> real \<Rightarrow> comment \<Rightarrow> bool" where
  "still_blocked c duration_still targetRow =
     (c_timeline targetRow + duration_still > c_timeline c)"

definition thresholdTime :: "comment \<Rightarrow> int \<Rightarrow> real \<Rightarrow> real" where
  "thresholdTime c width duration_marquee =
     (if c_width c + of_int width = 0 then c_timeline c - duration_marquee
      else c_timeline c - duration_marquee * (1 - of_int width / (c_width c + of_int width)))"

text \<open>
  The test of the second loop: \<open>or\<close> evaluates its second operand only when the first
  is false, and a \<open>ZeroDivisionError\<close> there is caught with \<open>pass\<close>.
\<close>

definition marquee_blocked :: "comment \<Rightarrow> int \<Rightarrow> real \<Rightarrow> comment \<Rightarrow> bool" where
  "marquee_blocked c width duration_marquee targetRow =
     (if c_timeline targetRow > thresholdTime c width duration_marquee then True
      else if c_width targetRow + of_int width = 0 then False
      else c_timeline targetRow
             + c_width targetRow * duration_marquee / (c_width targetRow + of_int width)
           > c_timeline c)"

definition TestFreeRows ::
  "grid \<Rightarrow> comment \<Rightarrow> nat \<Rightarrow> int \<Rightarrow> int \<Rightarrow> int \<Rightarrow> real \<Rightarrow> real \<Rightarrow> error + nat"
where
  "TestFreeRows rows c row width height bottomReserved duration_marquee duration_still =
     (let rowmax = height - bottomReserved
      in if c_pos c = Top \<or> c_pos c = Bottom
         then free_run (still_blocked c duration_still) (rows (c_pos c)) (c_height c)
                rowmax row 0 None
         else free_run (marquee_blocked c width duration_marquee) (rows (c_pos c)) (c_height c)
                rowmax row 0 None)"

section \<open>FindAlternativeRow and MarkCommentRow\<close>

text \<open>
  The \<open>for\<close> loop of \<open>FindAlternativeRow\<close> over the rows still to visit. Subscripting
  \<open>None\<close> raises \<open>TypeError\<close>.
\<close>

fun alt_scan :: "lane \<Rightarrow> nat list \<Rightarrow> nat \<Rightarrow> error + nat" where
  "alt_scan lane [] res = Inr res"
| "alt_scan lane (row # todo) res =
     (if row < length lane then
        (case lane ! row of
           None \<Rightarrow> Inr row
         | Some t \<Rightarrow>
             if res < length lane then
               (case lane ! res of
                  None \<Rightarrow> Inl TypeError
                | Some r \<Rightarrow>
                    if c_timeline t < c_timeline r then alt_scan lane todo row
                    else alt_scan lane todo res)
             else Inl IndexError)
      else Inl IndexError)"

definition FindAlternativeRow :: "grid \<Rightarrow> comment \<Rightarrow> int \<Rightarrow> int \<Rightarrow> error + nat" where
  "FindAlternativeRow rows c height bottomReserved =
     alt_scan (rows (c_pos c)) [0 ..< nat (height - bottomReserved - \<lceil>c_height c\<rceil>)] 0"

text \<open>
  \<open>MarkCommentRow\<close> assigns the cells \<open>row, row + 1, ...\<close> in turn, \<open>n\<close> of them, and
  stops without an error at the first one beyond the end of the list.
\<close>

fun mark_from :: "lane \<Rightarrow> comment \<Rightarrow> nat \<Rightarrow> nat \<Rightarrow> lane" where
  "mark_from lane c i 0 = lane"
| "mark_from lane c i (Suc n) =
     (if i < length lane then mark_from (lane[i := Some c]) c (Suc i) n else lane)"

definition MarkCommentRow :: "grid \<Rightarrow> comment \<Rightarrow> nat \<Rightarrow> grid" where
  "MarkCommentRow rows c row =
     rows (c_pos c := mark_from (rows (c_pos c)) c row (nat \<lceil>c_height c\<rceil>))"

section \<open>Definitions used to state the properties\<close>

text \<open>A cell does not stop the free run: it is empty, or its occupant passes the test.\<close>

definition free_cell :: "(comment \<Rightarrow> bool) \<Rightarrow> comment option \<Rightarrow> bool" where
  "free_cell blocked cell = (case cell of None \<Rightarrow> True | Some t \<Rightarrow> \<not> blocked t)"

text \<open>
  The two blocking conditions of a scroll-mode row as the specification words them, for
  the candidate \<open>c\<close> and the occupant \<open>occ\<close>.
\<close>

definition rule_a :: "comment \<Rightarrow> int \<Rightarrow> real \<Rightarrow> comment \<Rightarrow> bool" where
  "rule_a c stage_width duration_scroll occ =
     (c_timeline occ
        > c_timeline c - duration_scroll * (1 - of_int stage_width / (c_width c + of_int stage_width)))"

definition rule_b :: "comment \<Rightarrow> int \<Rightarrow> real \<Rightarrow> comment \<Rightarrow> bool" where
  "rule_b c stage_width duration_scroll occ =
     (c_timeline occ + c_width occ * duration_scroll / (c_width occ + of_int stage_width)
        > c_timeline c)"

text \<open>Concrete comments and grids for the examples.\<close>

definition mk_comment :: "real \<Rightarrow> mode \<Rightarrow> real \<Rightarrow> real \<Rightarrow> comment" where
  "mk_comment t m h w =
     \<lparr>c_timeline = t, c_timestamp = 0, c_no = 0, c_text = ''x'', c_pos = m, c_color = 0xFFFFFF,
      c_size = 25, c_height = h, c_width = w\<rparr>"

definition one_lane :: "mode \<Rightarrow> lane \<Rightarrow> grid" where
  "one_lane m lane = (\<lambda>k. if k = m then lane else [])"

text \<open>
  What \<open>FindAlternativeRow\<close> returns after scanning the rows below \<open>n\<close>: the first
  empty row; with no empty row, the first row whose occupant has the least appearance
  time; row 0 when \<open>n\<close> is 0.
\<close>

definition occ_time :: "lane \<Rightarrow> nat \<Rightarrow> real" where
  "occ_time lane j = (case lane ! j of None \<Rightarrow> 0 | Some t \<Rightarrow> c_timeline t)"

definition alt_result :: "lane \<Rightarrow> nat \<Rightarrow> nat \<Rightarrow> bool" where
  "alt_result lane n r =
     (if \<exists>i<n. lane ! i = None
      then r < n \<and> lane ! r = None \<and> (\<forall>j<r. lane ! j \<noteq> None)
      else if n = 0 then r = 0
      else r < n \<and> (\<forall>j<n. occ_time lane r \<le> occ_time lane j)
             \<and> (\<forall>j<r. occ_time lane r < occ_time lane j))"

section \<open>Event lines\<close>

text \<open>
  A decoded JSON value, as \<open>json.loads\<close> returns it: \<open>None\<close>, a \<open>bool\<close>, an \<open>int\<close>,
  a \<open>float\<close>, a \<open>str\<close>, a \<open>list\<close> or a \<open>dict\<close> (its items in order).
\<close>

datatype json =
  JNull | JBool bool | JInt int | JFloat real | JString string
  | JArray "json list" | JObject "(string \<times> json) list"

text \<open>
  An event line is kept as the values the source formats into it: the override tags in
  the order they are appended to \<open>styles\<close>, each with its arguments, the two times
  given to \<open>ConvertTimestamp\<close>, and the text given to \<open>ASSEscape\<close>. The printing of
  numbers and the escaping of the text are not modelled; the style name is the same on
  every line of a run and is left out.
\<close>

datatype tag =
  An8Pos int int
  | An2Pos int int
  | Move int int int int
  | Fs real
  | PrimaryColour string
  | OutlineWhite
  | Org int int
  | Pos real real
  | MoveTimed real real real real int int
  | Rotation real real real real real
  | TransformStart int int
  | TransformEnd
  | FontName json
  | Alpha int
  | FadIn real
  | FadOut real
  | Fade int int real
  | Bord0

datatype body = Text string | JText json

record dialogue =
  d_layer :: int
  d_start :: real
  d_end :: real
  d_styles :: "tag list"
  d_text :: body

text \<open>\<open>"%d" % x\<close> for a float \<open>x\<close> prints \<open>x\<close> truncated towards zero.\<close>

definition py_trunc :: "real \<Rightarrow> int" where
  "py_trunc x = (if 0 \<le> x then \<lfloor>x\<rfloor> else \<lceil>x\<rceil>)"

definition ConvertType2 :: "int \<Rightarrow> int \<Rightarrow> int \<Rightarrow> int" where
  "ConvertType2 row height bottomReserved = height - bottomReserved - row"

definition colour_tags :: "int \<Rightarrow> tag list" where
  "colour_tags RGB =
     (if RGB \<noteq> 0xFFFFFF
      then PrimaryColour (ConvertColor RGB 1280 576)
           # (if RGB = 0x000000 then [OutlineWhite] else [])
      else [])"

definition WriteComment ::
  "comment \<Rightarrow> nat \<Rightarrow> int \<Rightarrow> int \<Rightarrow> int \<Rightarrow> real \<Rightarrow> real \<Rightarrow> real \<Rightarrow> dialogue"
where
  "WriteComment c row width height bottomReserved fontsize duration_marquee duration_still =
     (let halfwidth = py_trunc (of_int width / 2);
          neglen = - \<lceil>c_width c\<rceil>;
          (place, duration) =
            (case c_pos c of
               Top \<Rightarrow> (An8Pos halfwidth (int row), duration_still)
             | Bottom \<Rightarrow>
                 (An2Pos halfwidth (ConvertType2 (int row) height bottomReserved), duration_still)
             | ScrollReverse \<Rightarrow> (Move neglen (int row) width (int row), duration_marquee)
             | Scroll \<Rightarrow> (Move width (int row) neglen (int row), duration_marquee))
      in \<lparr>d_layer = 2, d_start = c_timeline c, d_end = c_timeline c + duration,
          d_styles =
            [place]
            @ (if \<not> (- 1 < c_size c - fontsize \<and> c_size c - fontsize < 1)
               then [Fs (c_size c)] else [])
            @ colour_tags (c_color c),
          d_text = Text (c_text c)\<rparr>)"

section \<open>The row scan of ProcessComments\<close>

text \<open>
  The \<open>while row <= rowmax\<close> loop: \<open>Some row\<close> when a free run of the comment's height
  starts at \<open>row\<close> (the \<open>break\<close>), \<open>None\<close> when the loop ends by its condition (the
  \<open>else\<close> of the \<open>while\<close>).
\<close>

function find_row ::
  "grid \<Rightarrow> comment \<Rightarrow> int \<Rightarrow> int \<Rightarrow> int \<Rightarrow> real \<Rightarrow> real \<Rightarrow> nat \<Rightarrow> error + nat option"
where
  "find_row rows c width height bottomReserved duration_marquee duration_still row =
     (if real row \<le> of_int (height - bottomReserved) - c_height c then
        (case TestFreeRows rows c row width height bottomReserved duration_marquee duration_still of
           Inl e \<Rightarrow> Inl e
         | Inr freerows \<Rightarrow>
             if c_height c \<le> real freerows then Inr (Some row)
             else find_row rows c width height bottomReserved duration_marquee duration_still
                    (row + (if freerows = 0 then 1 else freerows)))
      else Inr None)"
  by pat_completeness auto
termination
proof (relation "measure (\<lambda>(rows, c, width, height, bottomReserved, dm, ds, row).
         nat (\<lfloor>of_int (height - bottomReserved) - c_height c\<rfloor> + 1 - int row))", goal_cases)
  case 1
  show ?case by simp
next
  case (2 rows c width height bottomReserved dm ds row b)
  have "int row \<le> \<lfloor>of_int (height - bottomReserved) - c_height c\<rfloor>"
    using 2(1) by (simp add: le_floor_iff)
  then show ?case by auto
qed

declare find_row.simps [simp del]

section \<open>ConvertFlashRotation\<close>

text \<open>
  \<open>WrapAngle\<close> on an \<open>int\<close> and on a \<open>float\<close>; Python's \<open>%\<close> takes the sign of the
  divisor, on floats as on integers.
\<close>

definition WrapAngle :: "int \<Rightarrow> int" where
  "WrapAngle deg = 180 - ((180 - deg) mod 360)"

definition py_fmod :: "real \<Rightarrow> real \<Rightarrow> real" where
  "py_fmod a b = a - b * of_int \<lfloor>a / b\<rfloor>"

definition WrapAngleF :: "real \<Rightarrow> real" where
  "WrapAngleF deg = 180 - py_fmod (180 - deg) 360"

text \<open>\<open>math.atan2(y, x)\<close>, without the signed zeros.\<close>

definition py_atan2 :: "real \<Rightarrow> real \<Rightarrow> real" where
  "py_atan2 y x =
     (if 0 < x then arctan (y / x)
      else if x < 0 then (if 0 \<le> y then arctan (y / x) + pi else arctan (y / x) - pi)
      else if 0 < y then pi / 2
      else if y < 0 then - (pi / 2)
      else 0)"

text \<open>
  The values of the local variables of \<open>ConvertFlashRotation\<close>, as functions of its
  arguments: \<open>rotY\<close> and \<open>rotZ\<close> after wrapping, the nudge away from 90 degrees and the
  conversion to radians; \<open>trX\<close>, \<open>trY\<close>, \<open>trZ\<close> and \<open>FOV\<close> as first assigned; and
  \<open>scaleXY\<close> as assigned in the \<open>try\<close>, 1 standing for its \<open>ZeroDivisionError\<close>
  branch.
\<close>

definition flash_degY :: "int \<Rightarrow> int" where
  "flash_degY rotY = (let r = WrapAngle rotY in if r = 90 \<or> r = - 90 then r - 1 else r)"

definition flash_rotY :: "int \<Rightarrow> real" where
  "flash_rotY rotY = of_int (flash_degY rotY) * (pi / 180)"

definition flash_rotZ :: "int \<Rightarrow> real" where
  "flash_rotZ rotZ = of_int (WrapAngle rotZ) * (pi / 180)"

definition flash_trX :: "int \<Rightarrow> int \<Rightarrow> real \<Rightarrow> real \<Rightarrow> int \<Rightarrow> int \<Rightarrow> real" where
  "flash_trX rotY rotZ X Y width height =
     (X * cos (flash_rotZ rotZ) + Y * sin (flash_rotZ rotZ)) / cos (flash_rotY rotY)
     + (1 - cos (flash_rotZ rotZ) / cos (flash_rotY rotY)) * of_int width / 2
     - sin (flash_rotZ rotZ) / cos (flash_rotY rotY) * of_int height / 2"

definition flash_trY :: "int \<Rightarrow> int \<Rightarrow> real \<Rightarrow> real \<Rightarrow> int \<Rightarrow> int \<Rightarrow> real" where
  "flash_trY rotY rotZ X Y width height =
     Y * cos (flash_rotZ rotZ) - X * sin (flash_rotZ rotZ)
     + sin (flash_rotZ rotZ) * of_int width / 2
     + (1 - cos (flash_rotZ rotZ)) * of_int height / 2"

definition flash_trZ :: "int \<Rightarrow> int \<Rightarrow> real \<Rightarrow> real \<Rightarrow> int \<Rightarrow> int \<Rightarrow> real" where
  "flash_trZ rotY rotZ X Y width height =
     (flash_trX rotY rotZ X Y width height - of_int width / 2) * sin (flash_rotY rotY)"

definition flash_FOV :: "int \<Rightarrow> real" where
  "flash_FOV width = of_int width * tan (2 * pi / 9) / 2"

definition flash_scaleXY :: "int \<Rightarrow> int \<Rightarrow> real \<Rightarrow> real \<Rightarrow> int \<Rightarrow> int \<Rightarrow> real" where
  "flash_scaleXY rotY rotZ X Y width height =
     (if flash_FOV width + flash_trZ rotY rotZ X Y width height = 0 then 1
      else flash_FOV width / (flash_FOV width + flash_trZ rotY rotZ X Y width height))"

definition flash_out :: "int \<Rightarrow> int \<Rightarrow> real \<times> real \<times> real" where
  "flash_out rotY rotZ =
     (if flash_degY rotY = 0 \<or> WrapAngle rotZ = 0
      then (0, - of_int (flash_degY rotY), - of_int (WrapAngle rotZ))
      else (arcsin (sin (flash_rotY rotY) * sin (flash_rotZ rotZ)) * 180 / pi,
            py_atan2 (- sin (flash_rotY rotY) * cos (flash_rotZ rotZ)) (cos (flash_rotY rotY))
              * 180 / pi,
            py_atan2 (- cos (flash_rotY rotY) * sin (flash_rotZ rotZ)) (cos (flash_rotZ rotZ))
              * 180 / pi))"

text \<open>
  The result is \<open>(trX, trY, rotX, rotY, rotZ, scaleX, scaleY)\<close>. Dividing by
  \<open>math.cos(rotY)\<close> raises \<open>ZeroDivisionError\<close> when it is zero, and nothing in the
  function catches it there.
\<close>

definition ConvertFlashRotation ::
  "int \<Rightarrow> int \<Rightarrow> real \<Rightarrow> real \<Rightarrow> int \<Rightarrow> int
     \<Rightarrow> error + (real \<times> real \<times> real \<times> real \<times> real \<times> real \<times> real)"
where
  "ConvertFlashRotation rotY rotZ X Y width height =
     (if cos (flash_rotY rotY) = 0 then Inl ZeroDivisionError
      else
        (let (outX, outY, outZ) = flash_out rotY rotZ;
             scaleXY = flash_scaleXY rotY rotZ X Y width height;
             trX = (flash_trX rotY rotZ X Y width height - of_int width / 2) * scaleXY
                     + of_int width / 2;
             trY = (flash_trY rotY rotZ X Y width height - of_int height / 2) * scaleXY
                     + of_int height / 2;
             (scaleXY2, outX2, outY2) =
               (if scaleXY < 0 then (- scaleXY, outX + 180, outY + 180)
                else (scaleXY, outX, outY))
         in Inr (trX, trY, WrapAngleF outX2, WrapAngleF outY2, WrapAngleF outZ,
                 scaleXY2 * 100, scaleXY2 * 100)))"

section \<open>Positioned comments\<close>

text \<open>
  The functions of Python's library that read a text are parameters of the model:
  \<open>json.loads\<close>, \<open>int\<close> and \<open>float\<close> of a \<open>str\<close> (\<open>None\<close> where they raise
  \<open>ValueError\<close>), and \<open>str\<close> of a value that is not a \<open>str\<close>.
\<close>

record pylib =
  loads :: "string \<Rightarrow> json option"
  str_int :: "string \<Rightarrow> int option"
  str_float :: "string \<Rightarrow> real option"
  str_of :: "json \<Rightarrow> string"

definition bind_e :: "error + 'a \<Rightarrow> ('a \<Rightarrow> error + 'b) \<Rightarrow> error + 'b" where
  "bind_e m k = (case m of Inl e \<Rightarrow> Inl e | Inr x \<Rightarrow> k x)"

text \<open>
  \<open>safe_list(x)\<close> is \<open>list(x)\<close>: the items of a list, the keys of a dict, the characters
  of a string; any other value is not iterable.
\<close>

definition py_list :: "json \<Rightarrow> error + json list" where
  "py_list v =
     (case v of
        JArray xs \<Rightarrow> Inr xs
      | JObject kvs \<Rightarrow> Inr (map (\<lambda>kv. JString (fst kv)) kvs)
      | JString s \<Rightarrow> Inr (map (\<lambda>ch. JString [ch]) s)
      | _ \<Rightarrow> Inl TypeError)"

definition get_default :: "'a list \<Rightarrow> nat \<Rightarrow> 'a \<Rightarrow> 'a" where
  "get_default xs i d = (if i < length xs then xs ! i else d)"

definition py_int :: "pylib \<Rightarrow> json \<Rightarrow> error + int" where
  "py_int lib v =
     (case v of
        JInt n \<Rightarrow> Inr n
      | JBool b \<Rightarrow> Inr (if b then 1 else 0)
      | JFloat x \<Rightarrow> Inr (py_trunc x)
      | JString s \<Rightarrow> (case str_int lib s of None \<Rightarrow> Inl ValueError | Some n \<Rightarrow> Inr n)
      | _ \<Rightarrow> Inl TypeError)"

definition py_float :: "pylib \<Rightarrow> json \<Rightarrow> error + real" where
  "py_float lib v =
     (case v of
        JInt n \<Rightarrow> Inr (of_int n)
      | JBool b \<Rightarrow> Inr (if b then 1 else 0)
      | JFloat x \<Rightarrow> Inr x
      | JString s \<Rightarrow> (case str_float lib s of None \<Rightarrow> Inl ValueError | Some x \<Rightarrow> Inr x)
      | _ \<Rightarrow> Inl TypeError)"

definition py_str :: "pylib \<Rightarrow> json \<Rightarrow> string" where
  "py_str lib v = (case v of JString s \<Rightarrow> s | _ \<Rightarrow> str_of lib v)"

definition py_truthy :: "json \<Rightarrow> bool" where
  "py_truthy v =
     (case v of
        JNull \<Rightarrow> False
      | JBool b \<Rightarrow> b
      | JInt n \<Rightarrow> n \<noteq> 0
      | JFloat x \<Rightarrow> x \<noteq> 0
      | JString s \<Rightarrow> s \<noteq> []
      | JArray xs \<Rightarrow> xs \<noteq> []
      | JObject kvs \<Rightarrow> kvs \<noteq> [])"

text \<open>\<open>s.split("-")\<close>.\<close>

fun split_dash :: "string \<Rightarrow> string list" where
  "split_dash [] = [[]]"
| "split_dash (ch # s) =
     (if ch = CHR ''-'' then [] # split_dash s
      else (case split_dash s of [] \<Rightarrow> [[ch]] | p # ps \<Rightarrow> (ch # p) # ps))"

text \<open>
  \<open>GetZoomFactor\<close>, without its cache of the last result: \<open>(1, 0, 0)\<close> where a division
  raises \<open>ZeroDivisionError\<close>.
\<close>

definition GetZoomFactor :: "int \<times> int \<Rightarrow> int \<times> int \<Rightarrow> real \<times> real \<times> real" where
  "GetZoomFactor SourceSize TargetSize =
     (let sw = real_of_int (fst SourceSize); sh = real_of_int (snd SourceSize);
          tw = real_of_int (fst TargetSize); th = real_of_int (snd TargetSize)
      in if sh = 0 \<or> th = 0 then (1, 0, 0)
         else
           (let SourceAspect = sw / sh; TargetAspect = tw / th
            in if TargetAspect < SourceAspect
               then (if sw = 0 then (1, 0, 0) else (tw / sw, 0, (th - tw / SourceAspect) / 2))
               else if TargetAspect > SourceAspect
               then (th / sh, (tw - th * SourceAspect) / 2, 0)
               else (if sw = 0 then (1, 0, 0) else (tw / sw, 0, 0))))"

definition BiliPlayerSize :: "int \<times> int" where
  "BiliPlayerSize = (672, 438)"

text \<open>
  \<open>GetPosition\<close>: an \<open>int\<close> (a \<open>bool\<close> is one) and a \<open>float\<close> above 1 are pixels, a
  \<open>float\<close> up to 1 is a fraction of the player; anything else goes through \<open>int\<close>, and
  through \<open>float\<close> when \<open>int\<close> raises \<open>ValueError\<close>.
\<close>

definition pos_pixels :: "real \<times> real \<times> real \<Rightarrow> real \<Rightarrow> bool \<Rightarrow> real" where
  "pos_pixels ZoomFactor x isHeight =
     fst ZoomFactor * x
     + (if isHeight then snd (snd ZoomFactor) else fst (snd ZoomFactor))"

definition pos_float :: "real \<times> real \<times> real \<Rightarrow> real \<Rightarrow> bool \<Rightarrow> real" where
  "pos_float ZoomFactor x isHeight =
     (if 1 < x then pos_pixels ZoomFactor x isHeight
      else of_int (if isHeight then snd BiliPlayerSize else fst BiliPlayerSize)
             * fst ZoomFactor * x
           + (if isHeight then snd (snd ZoomFactor) else fst (snd ZoomFactor)))"

definition GetPosition :: "pylib \<Rightarrow> real \<times> real \<times> real \<Rightarrow> json \<Rightarrow> bool \<Rightarrow> error + real" where
  "GetPosition lib ZoomFactor InputPos isHeight =
     (case InputPos of
        JInt n \<Rightarrow> Inr (pos_pixels ZoomFactor (of_int n) isHeight)
      | JBool b \<Rightarrow> Inr (pos_pixels ZoomFactor (if b then 1 else 0) isHeight)
      | JFloat x \<Rightarrow> Inr (pos_float ZoomFactor x isHeight)
      | JString s \<Rightarrow>
          (case str_int lib s of
             Some n \<Rightarrow> Inr (pos_pixels ZoomFactor (of_int n) isHeight)
           | None \<Rightarrow>
               (case str_float lib s of
                  Some x \<Rightarrow> Inr (pos_float ZoomFactor x isHeight)
                | None \<Rightarrow> Inl ValueError))
      | _ \<Rightarrow> Inl TypeError)"

definition alpha_tags :: "int \<Rightarrow> int \<Rightarrow> real \<Rightarrow> tag list" where
  "alpha_tags from_alpha to_alpha lifetime =
     (if from_alpha = to_alpha then [Alpha from_alpha]
      else if (from_alpha, to_alpha) = (255, 0) then [FadIn (lifetime * 1000)]
      else if (from_alpha, to_alpha) = (0, 255) then [FadOut (lifetime * 1000)]
      else [Fade from_alpha to_alpha (lifetime * 1000)])"

definition rot_tag :: "real \<times> real \<times> real \<times> real \<times> real \<times> real \<times> real \<Rightarrow> tag" where
  "rot_tag r = (case r of (tx, ty, rx, ry, rz, sx, sy) \<Rightarrow> Rotation rx ry rz sx sy)"

text \<open>The body of the \<open>try\<close> of \<open>WriteCommentBilibiliPositioned\<close>, up to the line it writes.\<close>

definition positioned_line :: "pylib \<Rightarrow> positioned \<Rightarrow> int \<Rightarrow> int \<Rightarrow> error + dialogue" where
  "positioned_line lib c width height =
     (let ZoomFactor = GetZoomFactor BiliPlayerSize (width, height) in
      bind_e (case loads lib (p_text c) of None \<Rightarrow> Inl ValueError | Some v \<Rightarrow> py_list v)
        (\<lambda>comment_args.
      if length comment_args \<le> 4 then Inl IndexError else
      bind_e (GetPosition lib ZoomFactor (get_default comment_args 0 (JInt 0)) False) (\<lambda>from_x.
      bind_e (GetPosition lib ZoomFactor (get_default comment_args 1 (JInt 0)) True) (\<lambda>from_y.
      bind_e (GetPosition lib ZoomFactor
                (get_default comment_args 7 (get_default comment_args 0 (JInt 0))) False) (\<lambda>to_x.
      bind_e (GetPosition lib ZoomFactor
                (get_default comment_args 8 (get_default comment_args 1 (JInt 0))) True) (\<lambda>to_y.
      let alpha = split_dash (py_str lib (get_default comment_args 2 (JString ''1''))) in
      bind_e (py_float lib (JString (get_default alpha 0 ''1''))) (\<lambda>from_alpha.
      bind_e (if 1 < length alpha then py_float lib (JString (alpha ! 1)) else Inr from_alpha)
        (\<lambda>to_alpha.
      bind_e (py_int lib (get_default comment_args 5 (JInt 0))) (\<lambda>rotate_z.
      bind_e (py_int lib (get_default comment_args 6 (JInt 0))) (\<lambda>rotate_y.
      bind_e (py_float lib (get_default comment_args 3 (JInt 4500))) (\<lambda>lifetime.
      bind_e (if 9 < length comment_args then py_int lib (comment_args ! 9)
              else Inr (py_trunc (lifetime * 1000))) (\<lambda>duration.
      bind_e (py_int lib (get_default comment_args 10 (JInt 0))) (\<lambda>delay.
      bind_e (ConvertFlashRotation rotate_y rotate_z from_x from_y width height) (\<lambda>from_rotarg.
      bind_e (ConvertFlashRotation rotate_y rotate_z to_x to_y width height) (\<lambda>to_rotarg.
      Inr \<lparr>d_layer = - 1, d_start = p_timeline c, d_end = p_timeline c + lifetime,
           d_styles =
             [Org (py_trunc (of_int width / 2)) (py_trunc (of_int height / 2))]
             @ (if (fst from_rotarg, fst (snd from_rotarg)) = (fst to_rotarg, fst (snd to_rotarg))
                then [Pos (fst from_rotarg) (fst (snd from_rotarg))]
                else [MoveTimed (fst from_rotarg) (fst (snd from_rotarg))
                        (fst to_rotarg) (fst (snd to_rotarg)) delay (delay + duration)])
             @ [rot_tag from_rotarg]
             @ (if (from_x, from_y) \<noteq> (to_x, to_y)
                then [TransformStart delay (delay + duration), rot_tag to_rotarg, TransformEnd]
                else [])
             @ (if 12 < length comment_args \<and> py_truthy (comment_args ! 12)
                then [FontName (comment_args ! 12)] else [])
             @ [Fs (p_size c * fst ZoomFactor)]
             @ colour_tags (p_color c)
             @ alpha_tags (255 - py_round (from_alpha * 255)) (255 - py_round (to_alpha * 255))
                 lifetime
             @ (if get_default comment_args 11 (JString ''true'') = JString ''false''
                then [Bord0] else []),
           d_text = JText (comment_args ! 4)\<rparr>)))))))))))))))"

text \<open>
  \<open>WriteCommentBilibiliPositioned\<close> catches \<open>IndexError\<close> and \<open>ValueError\<close>, logging
  a warning with \<open>c[3]\<close>; any other exception leaves the function. The result is the
  file and the log after the call.
\<close>

definition WriteCommentBilibiliPositioned ::
  "pylib \<Rightarrow> dialogue list \<Rightarrow> string list \<Rightarrow> positioned \<Rightarrow> int \<Rightarrow> int
     \<Rightarrow> error + (dialogue list \<times> string list)"
where
  "WriteCommentBilibiliPositioned lib f warnings c width height =
     (case positioned_line lib c width height of
        Inr line \<Rightarrow> Inr (f @ [line], warnings)
      | Inl IndexError \<Rightarrow> Inr (f, warnings @ [p_text c])
      | Inl ValueError \<Rightarrow> Inr (f, warnings @ [p_text c])
      | Inl e \<Rightarrow> Inl e)"

section \<open>ProcessComments\<close>

text \<open>
  The state of a run: the lane grid, the event lines written to the file after the
  header, and the warnings logged. \<open>r_placed\<close> is not in the source: it records, for
  each call of \<open>MarkCommentRow\<close> and \<open>WriteComment\<close>, the comment, the row, and whether
  the row came from \<open>FindAlternativeRow\<close>.
\<close>

record run =
  r_rows :: grid
  r_f :: "dialogue list"
  r_log :: "string list"
  r_placed :: "(comment \<times> nat \<times> bool) list"

text \<open>
  The body of the \<open>for\<close> loop for a comment whose \<open>c[4]\<close> is an \<open>int\<close> and that no
  filter matches: the new grid, and the row and its origin when the comment is written.
\<close>

definition place_comment ::
  "grid \<Rightarrow> comment \<Rightarrow> int \<Rightarrow> int \<Rightarrow> int \<Rightarrow> real \<Rightarrow> real \<Rightarrow> bool
     \<Rightarrow> error + (grid \<times> (nat \<times> bool) option)"
where
  "place_comment rows c width height bottomReserved duration_marquee duration_still reduced =
     (case find_row rows c width height bottomReserved duration_marquee duration_still 0 of
        Inl e \<Rightarrow> Inl e
      | Inr (Some row) \<Rightarrow> Inr (MarkCommentRow rows c row, Some (row, False))
      | Inr None \<Rightarrow>
          if \<not> reduced then
            (case FindAlternativeRow rows c height bottomReserved of
               Inl e \<Rightarrow> Inl e
             | Inr row \<Rightarrow> Inr (MarkCommentRow rows c row, Some (row, True)))
          else Inr (rows, None))"

text \<open>
  One turn of the \<open>for\<close> loop. A filter is the \<open>search\<close> of a compiled regular
  expression, as a predicate on the text.
\<close>

definition process_entry ::
  "pylib \<Rightarrow> int \<Rightarrow> int \<Rightarrow> int \<Rightarrow> real \<Rightarrow> real \<Rightarrow> real \<Rightarrow> (string \<Rightarrow> bool) list \<Rightarrow> bool
     \<Rightarrow> entry \<Rightarrow> run \<Rightarrow> error + run"
where
  "process_entry lib width height bottomReserved fontsize duration_marquee duration_still
     filters_regex reduced i s =
     (case i of
        Regular c \<Rightarrow>
          if list_ex (\<lambda>filter_regex. filter_regex (c_text c)) filters_regex then Inr s
          else
            (case place_comment (r_rows s) c width height bottomReserved duration_marquee
                    duration_still reduced of
               Inl e \<Rightarrow> Inl e
             | Inr (rows, None) \<Rightarrow> Inr (s\<lparr>r_rows := rows\<rparr>)
             | Inr (rows, Some (row, forced)) \<Rightarrow>
                 Inr (s\<lparr>r_rows := rows,
                        r_f := r_f s @ [WriteComment c row width height bottomReserved fontsize
                                          duration_marquee duration_still],
                        r_placed := r_placed s @ [(c, row, forced)]\<rparr>))
      | Bilipos p \<Rightarrow>
          (case WriteCommentBilibiliPositioned lib (r_f s) (r_log s) p width height of
             Inl e \<Rightarrow> Inl e
           | Inr (f, warnings) \<Rightarrow> Inr (s\<lparr>r_f := f, r_log := warnings\<rparr>))
      | Invalid t \<Rightarrow> Inr (s\<lparr>r_log := r_log s @ [t]\<rparr>))"

text \<open>
  The \<open>for\<close> loop: the state when the loop ends, with the exception that ended it, if
  one did. Nothing is written for the comment that raises.
\<close>

fun process_loop ::
  "pylib \<Rightarrow> int \<Rightarrow> int \<Rightarrow> int \<Rightarrow> real \<Rightarrow> real \<Rightarrow> real \<Rightarrow> (string \<Rightarrow> bool) list \<Rightarrow> bool
     \<Rightarrow> entry list \<Rightarrow> run \<Rightarrow> run \<times> error option"
where
  "process_loop lib width height bottomReserved fontsize duration_marquee duration_still
     filters_regex reduced [] s = (s, None)"
| "process_loop lib width height bottomReserved fontsize duration_marquee duration_still
     filters_regex reduced (i # comments) s =
     (case process_entry lib width height bottomReserved fontsize duration_marquee
             duration_still filters_regex reduced i s of
        Inl e \<Rightarrow> (s, Some e)
      | Inr s' \<Rightarrow>
          process_loop lib width height bottomReserved fontsize duration_marquee duration_still
            filters_regex reduced comments s')"

definition ProcessComments ::
  "pylib \<Rightarrow> entry list \<Rightarrow> int \<Rightarrow> int \<Rightarrow> int \<Rightarrow> real \<Rightarrow> real \<Rightarrow> real \<Rightarrow> (string \<Rightarrow> bool) list
     \<Rightarrow> bool \<Rightarrow> run \<times> error option"
where
  "ProcessComments lib comments width height bottomReserved fontsize duration_marquee
     duration_still filters_regex reduced =
     process_loop lib width height bottomReserved fontsize duration_marquee duration_still
       filters_regex reduced comments
       \<lparr>r_rows = new_rows height bottomReserved, r_f = [], r_log = [], r_placed = []\<rparr>"

section \<open>The scroll-mode blocking rule with its zero denominators\<close>

text \<open>
  The blocking rule of a scroll-mode row as the specification words it once the
  divisions by zero are accounted for. Condition (a) always applies: with the threshold
  of \<open>rule_a\<close>, or, when the candidate's denominator \<open>c.width + stage_width\<close> is zero,
  with the threshold \<open>c.appearance_time - duration_scroll\<close>. Condition (b) applies only
  when the occupant's denominator \<open>occ.width + stage_width\<close> is not zero.
\<close>

definition rule_a_zero_div :: "comment \<Rightarrow> int \<Rightarrow> real \<Rightarrow> comment \<Rightarrow> bool" where
  "rule_a_zero_div c stage_width duration_scroll occ =
     (if c_width c + of_int stage_width = 0
      then c_timeline occ > c_timeline c - duration_scroll
      else rule_a c stage_width duration_scroll occ)"

definition rule_b_zero_div :: "comment \<Rightarrow> int \<Rightarrow> real \<Rightarrow> comment \<Rightarrow> bool" where
  "rule_b_zero_div c stage_width duration_scroll occ =
     (if c_width occ + of_int stage_width = 0 then False
      else rule_b c stage_width duration_scroll occ)"

section \<open>An example library\<close>

text \<open>
  The library restricted to the texts of the examples below: \<open>json.loads\<close> of
  \<open>[null,0,1,4.5,0]\<close>, \<open>int\<close> and \<open>float\<close> of \<open>1\<close>, \<open>str\<close> of the integers 0 and 1. On
  every other text \<open>json.loads\<close>, \<open>int\<close> and \<open>float\<close> raise \<open>ValueError\<close>.
\<close>

definition example_lib :: pylib where
  "example_lib =
     \<lparr>loads = (\<lambda>s. if s = ''[null,0,1,4.5,0]''
                   then Some (JArray [JNull, JInt 0, JInt 1, JFloat 4.5, JInt 0]) else None),
      str_int = (\<lambda>s. if s = ''1'' then Some 1 else None),
      str_float = (\<lambda>s. if s = ''1'' then Some 1 else None),
      str_of = (\<lambda>v. if v = JInt 0 then ''0'' else if v = JInt 1 then ''1'' else [])\<rparr>"

section \<open>Definitions used to state the properties of the run\<close>






section \<open>Properties of the colour conversion\<close>

lemma py_round_bounds:
  assumes "0 \<le> x" "x \<le> 255"
  shows "0 \<le> py_round x \<and> py_round x \<le> 255"
proof -
  define f where "f = \<lfloor>x\<rfloor>"
  have f0: "0 \<le> f" using assms(1) by (simp add: f_def)
  have f255: "f \<le> 255" using assms(2) unfolding f_def by linarith
  have up: "f + 1 \<le> 255" if "1 / 2 \<le> x - of_int f"
  proof -
    have "(of_int f :: real) < of_int 255" using that assms(2) by simp
    then have "f < 255" by (simp only: of_int_less_iff)
    then show ?thesis by simp
  qed
  show ?thesis
    unfolding py_round_def Let_def f_def [symmetric]
    using f0 f255 up by auto
qed

lemma ClipByte_range: "0 \<le> ClipByte x \<and> ClipByte x \<le> 255"
  unfolding ClipByte_def using py_round_bounds[of x] by auto

text \<open>
  Claim C7, as amended. \<open>ConvertColor\<close> returns \<open>"000000"\<close> for \<open>0x000000\<close> and
  \<open>"FFFFFF"\<close> for \<open>0xFFFFFF\<close> at every resolution. For every other colour it returns
  the BT.601 to BT.709 matrix conversion exactly when the width is at least 1280 or the
  height is at least 576, and the swap of the three channels exactly when the width is
  below 1280 and the height is below 576. Every channel of the matrix conversion goes
  through \<open>ClipByte\<close>, whose value lies in \<open>[0, 255]\<close>.
\<close>

theorem ConvertColor_branches:
  "ConvertColor 0x000000 w h = ''000000''
   \<and> ConvertColor 0xFFFFFF w h = ''FFFFFF''
   \<and> (RGB \<noteq> 0x000000 \<and> RGB \<noteq> 0xFFFFFF \<longrightarrow>
        ConvertColor RGB w h
          = (if 1280 \<le> w \<or> 576 \<le> h then matrix_colour RGB else swap_colour RGB))
   \<and> matrix_colour RGB
        = fmt_02X (ClipByte (bt709_1 RGB)) @ fmt_02X (ClipByte (bt709_2 RGB))
          @ fmt_02X (ClipByte (bt709_3 RGB))
   \<and> (\<forall>x. 0 \<le> ClipByte x \<and> ClipByte x \<le> 255)"
  by (auto simp: ConvertColor_def matrix_colour_def ClipByte_range)

theorem ConvertColor_branches_witness:
  "ConvertColor 0xFF0000 100 576 = matrix_colour 0xFF0000
   \<and> ConvertColor 0xFF0000 1279 575 = swap_colour 0xFF0000
   \<and> matrix_colour 0xFF0000 = ''0200E9''
   \<and> swap_colour 0xFF0000 = ''0000FF''"
proof -
  have a: "ConvertColor 0xFF0000 100 576 = matrix_colour 0xFF0000"
    using ConvertColor_branches [of 100 576 "0xFF0000"] by simp
  have b: "ConvertColor 0xFF0000 1279 575 = swap_colour 0xFF0000"
    using ConvertColor_branches [of 1279 575 "0xFF0000"] by simp
  have c: "matrix_colour 0xFF0000 = ''0200E9''" by code_simp
  have d: "swap_colour 0xFF0000 = ''0000FF''" by code_simp
  from a b c d show ?thesis by blast
qed

text \<open>
  The claim as stated fails at a stage of 100 by 576 pixels, which is not at least
  1280 by 576: red is converted with the matrix, not by the channel swap.
\<close>

theorem ConvertColor_threshold_counterexample:
  "\<not> ((1280::int) \<le> 100 \<and> (576::int) \<le> 576)
   \<and> ConvertColor 0xFF0000 100 576 = ''0200E9''
   \<and> swap_colour 0xFF0000 = ''0000FF''
   \<and> ConvertColor 0xFF0000 100 576 \<noteq> swap_colour 0xFF0000"
proof -
  have c: "ConvertColor 0xFF0000 100 576 = ''0200E9''" by code_simp
  have d: "swap_colour 0xFF0000 = ''0000FF''" by code_simp
  show ?thesis unfolding c d by simp
qed

section \<open>Properties of TestFreeRows\<close>

lemma free_run_spec:
  assumes "\<And>r. int r < rowmax \<Longrightarrow> r < length lane" and "free_cell blocked targetRow"
  shows "\<exists>k. free_run blocked lane h rowmax row res targetRow = Inr (res + k)
           \<and> (\<forall>i<k. free_cell blocked (lane ! (row + i)) \<and> int (row + i) < rowmax \<and> real (res + i) < h)
           \<and> (int (row + k) < rowmax \<and> real (res + k) < h \<longrightarrow> \<not> free_cell blocked (lane ! (row + k)))"
  using assms
proof (induction blocked lane h rowmax row res targetRow rule: free_run.induct)
  case (1 blocked lane h rowmax row res targetRow)
  show ?case
  proof (cases "int row < rowmax \<and> real res < h")
    case False
    then have "free_run blocked lane h rowmax row res targetRow = Inr (res + 0)"
      by (subst free_run.simps) auto
    moreover have "\<not> (int (row + 0) < rowmax \<and> real (res + 0) < h)" using False by simp
    ultimately show ?thesis by (intro exI[of _ 0]) auto
  next
    case True
    then have len: "row < length lane" using "1.prems"(1) by simp
    show ?thesis
    proof (cases "free_cell blocked (lane ! row)")
      case False
      then obtain t where t: "lane ! row = Some t" "blocked t"
        by (auto simp: free_cell_def split: option.splits)
      have "targetRow \<noteq> lane ! row" using t "1.prems"(2) by (auto simp: free_cell_def)
      then have "free_run blocked lane h rowmax row res targetRow = Inr (res + 0)"
        using True len t by (subst free_run.simps) auto
      then show ?thesis using False by (intro exI[of _ 0]) auto
    next
      case fr: True
      have step: "free_run blocked lane h rowmax row res targetRow
                  = free_run blocked lane h rowmax (Suc row) (Suc res) (lane ! row)"
        using True len fr
        by (subst free_run.simps) (auto simp: free_cell_def split: option.splits)
      have "\<exists>k. free_run blocked lane h rowmax (Suc row) (Suc res) (lane ! row) = Inr (Suc res + k)
           \<and> (\<forall>i<k. free_cell blocked (lane ! (Suc row + i)) \<and> int (Suc row + i) < rowmax \<and> real (Suc res + i) < h)
           \<and> (int (Suc row + k) < rowmax \<and> real (Suc res + k) < h \<longrightarrow> \<not> free_cell blocked (lane ! (Suc row + k)))"
      proof (cases "targetRow \<noteq> lane ! row")
        case ne: True
        show ?thesis
        proof (cases "lane ! row")
          case None
          show ?thesis
            using "1.IH"(1)[OF True len ne None] "1.prems"(1) None
            by (simp add: free_cell_def)
        next
          case (Some t)
          then have nb: "\<not> blocked t" using fr by (simp add: free_cell_def)
          show ?thesis
            using "1.IH"(2)[OF True len ne Some nb] "1.prems"(1) Some nb
            by (simp add: free_cell_def)
        qed
      next
        case eq: False
        then have e: "lane ! row = targetRow" by simp
        show ?thesis
          using "1.IH"(3)[OF True len eq] "1.prems" e by simp
      qed
      then obtain k where k: "free_run blocked lane h rowmax (Suc row) (Suc res) (lane ! row) = Inr (Suc res + k)"
        "\<forall>i<k. free_cell blocked (lane ! (Suc row + i)) \<and> int (Suc row + i) < rowmax \<and> real (Suc res + i) < h"
        "int (Suc row + k) < rowmax \<and> real (Suc res + k) < h \<longrightarrow> \<not> free_cell blocked (lane ! (Suc row + k))"
        by blast
      have A: "free_run blocked lane h rowmax row res targetRow = Inr (res + Suc k)"
        using step k(1) by simp
      have B: "\<forall>i<Suc k. free_cell blocked (lane ! (row + i)) \<and> int (row + i) < rowmax \<and> real (res + i) < h"
      proof (intro allI impI)
        fix i assume "i < Suc k"
        show "free_cell blocked (lane ! (row + i)) \<and> int (row + i) < rowmax \<and> real (res + i) < h"
        proof (cases i)
          case 0 then show ?thesis using fr True by simp
        next
          case (Suc j)
          then have "j < k" using \<open>i < Suc k\<close> by simp
          then show ?thesis using k(2) Suc by simp
        qed
      qed
      have C: "int (row + Suc k) < rowmax \<and> real (res + Suc k) < h \<longrightarrow> \<not> free_cell blocked (lane ! (row + Suc k))"
        using k(3) by simp
      show ?thesis using A B C by blast
    qed
  qed
qed

lemma marquee_blocked_rules:
  assumes "c_width c + of_int w \<noteq> 0" "c_width occ + of_int w \<noteq> 0"
  shows "marquee_blocked c w dm occ \<longleftrightarrow> rule_a c w dm occ \<or> rule_b c w dm occ"
  using assms by (auto simp: marquee_blocked_def thresholdTime_def rule_a_def rule_b_def)

text \<open>
  Claim C1. For a scroll-mode comment \<open>c\<close> (mode \<open>Scroll\<close> or \<open>ScrollReverse\<close>),
  on a lane that holds the rows below \<open>height - bottomReserved\<close>, and with no
  denominator of the threshold arithmetic zero, \<open>TestFreeRows\<close> returns a count
  \<open>n\<close> such that no occupant of the \<open>n\<close> rows counted satisfies condition (a) or
  condition (b), and, when the scan stopped before the bottom of the stage and before
  the height of the comment was reached, the row it stopped at has an occupant that
  satisfies (a) or (b): a row is blocking if and only if one of the two conditions holds.
\<close>

theorem TestFreeRows_scroll_rules:
  assumes scroll: "c_pos c = Scroll \<or> c_pos c = ScrollReverse"
    and len: "nat (height - bottomReserved) \<le> length (rows (c_pos c))"
    and nzc: "c_width c + of_int width \<noteq> 0"
    and nzo: "\<forall>occ. Some occ \<in> set (rows (c_pos c)) \<longrightarrow> c_width occ + of_int width \<noteq> 0"
  shows "\<exists>n. TestFreeRows rows c row width height bottomReserved dm ds = Inr n
           \<and> (\<forall>i<n. \<forall>occ. rows (c_pos c) ! (row + i) = Some occ \<longrightarrow>
                  \<not> (rule_a c width dm occ \<or> rule_b c width dm occ))
           \<and> (int (row + n) < height - bottomReserved \<and> real n < c_height c \<longrightarrow>
                (\<exists>occ. rows (c_pos c) ! (row + n) = Some occ
                      \<and> (rule_a c width dm occ \<or> rule_b c width dm occ)))"
proof -
  let ?lane = "rows (c_pos c)"
  let ?bl = "marquee_blocked c width dm"
  have inr: "\<And>r. int r < height - bottomReserved \<Longrightarrow> r < length ?lane"
    using len by linarith
  have T: "TestFreeRows rows c row width height bottomReserved dm ds
           = free_run ?bl ?lane (c_height c) (height - bottomReserved) row 0 None"
    using scroll by (auto simp: TestFreeRows_def)
  from free_run_spec[of "height - bottomReserved" ?lane ?bl None "c_height c" row 0, OF inr]
  obtain k where k: "free_run ?bl ?lane (c_height c) (height - bottomReserved) row 0 None = Inr (0 + k)"
    "\<forall>i<k. free_cell ?bl (?lane ! (row + i)) \<and> int (row + i) < height - bottomReserved \<and> real (0 + i) < c_height c"
    "int (row + k) < height - bottomReserved \<and> real (0 + k) < c_height c \<longrightarrow> \<not> free_cell ?bl (?lane ! (row + k))"
    by (auto simp: free_cell_def)
  have eq: "\<And>occ r. ?lane ! r = Some occ \<Longrightarrow> int r < height - bottomReserved
               \<Longrightarrow> ?bl occ \<longleftrightarrow> rule_a c width dm occ \<or> rule_b c width dm occ"
  proof -
    fix occ r assume a: "?lane ! r = Some occ" "int r < height - bottomReserved"
    then have "Some occ \<in> set ?lane" using inr[OF a(2)] by (metis nth_mem)
    then show "?bl occ \<longleftrightarrow> rule_a c width dm occ \<or> rule_b c width dm occ"
      using marquee_blocked_rules[OF nzc] nzo by blast
  qed
  have A: "\<forall>i<k. \<forall>occ. ?lane ! (row + i) = Some occ \<longrightarrow> \<not> (rule_a c width dm occ \<or> rule_b c width dm occ)"
  proof (intro allI impI)
    fix i occ assume "i < k" and o: "?lane ! (row + i) = Some occ"
    then have "free_cell ?bl (Some occ)" using k(2) by metis
    then have "\<not> ?bl occ" by (simp add: free_cell_def)
    moreover have "int (row + i) < height - bottomReserved" using k(2) \<open>i < k\<close> by simp
    ultimately show "\<not> (rule_a c width dm occ \<or> rule_b c width dm occ)" using eq[OF o] by simp
  qed
  have B: "int (row + k) < height - bottomReserved \<and> real k < c_height c \<longrightarrow>
                (\<exists>occ. ?lane ! (row + k) = Some occ \<and> (rule_a c width dm occ \<or> rule_b c width dm occ))"
  proof
    assume h: "int (row + k) < height - bottomReserved \<and> real k < c_height c"
    then have "\<not> free_cell ?bl (?lane ! (row + k))" using k(3) by simp
    then obtain occ where o: "?lane ! (row + k) = Some occ" "?bl occ"
      by (auto simp: free_cell_def split: option.splits)
    then show "\<exists>occ. ?lane ! (row + k) = Some occ \<and> (rule_a c width dm occ \<or> rule_b c width dm occ)"
      using eq[OF o(1)] h by simp
  qed
  show ?thesis using T k(1) A B by (intro exI[of _ k]) simp
qed

theorem TestFreeRows_scroll_rules_witness:
  "\<exists>n. TestFreeRows (one_lane Scroll [None, Some (mk_comment 9 Scroll 1 100), None, None])
          (mk_comment 10 Scroll 2 100) 0 100 3 0 5 5 = Inr n
       \<and> n = 1
       \<and> rule_a (mk_comment 10 Scroll 2 100) 100 5 (mk_comment 9 Scroll 1 100)"
proof -
  let ?rows = "one_lane Scroll [None, Some (mk_comment 9 Scroll 1 100), None, None]"
  let ?c = "mk_comment 10 Scroll 2 100"
  have ra: "rule_a ?c 100 5 (mk_comment 9 Scroll 1 100)"
    by (simp add: rule_a_def mk_comment_def)
  have v: "TestFreeRows ?rows ?c 0 100 3 0 5 5 = Inr 1"
    by code_simp
  from TestFreeRows_scroll_rules[of ?c 3 0 ?rows 100 0 5 5]
  obtain n where "TestFreeRows ?rows ?c 0 100 3 0 5 5 = Inr n"
    by (auto simp: mk_comment_def one_lane_def)
  with v ra show ?thesis by simp
qed

lemma marquee_blocked_zero_div:
  "marquee_blocked c w dm occ \<longleftrightarrow> rule_a_zero_div c w dm occ \<or> rule_b_zero_div c w dm occ"
  by (auto simp: marquee_blocked_def thresholdTime_def rule_a_zero_div_def rule_b_zero_div_def
                 rule_a_def rule_b_def)

text \<open>
  Claim C8, as amended. For a scroll-mode comment, on a lane that holds the rows below
  \<open>height - bottomReserved\<close>, \<open>TestFreeRows\<close> returns a count \<open>n\<close> and raises nothing,
  whatever the widths, and the count is fixed by the blocking rule with its zero
  denominators: condition (a) always applies, with the threshold \<open>c.appearance_time -
  duration_scroll\<close> when the candidate's denominator \<open>c.width + stage_width\<close> is zero,
  and condition (b) applies only when the occupant's denominator \<open>occ.width +
  stage_width\<close> is not zero. No occupant of the \<open>n\<close> rows counted satisfies the rule,
  and, when the scan stopped before the bottom of the stage and before the height of
  the comment was reached, the row it stopped at has an occupant that satisfies it.
\<close>

theorem TestFreeRows_zero_division:
  assumes scroll: "c_pos c = Scroll \<or> c_pos c = ScrollReverse"
    and len: "nat (height - bottomReserved) \<le> length (rows (c_pos c))"
  shows "\<exists>n. TestFreeRows rows c row width height bottomReserved dm ds = Inr n
           \<and> (\<forall>i<n. \<forall>occ. rows (c_pos c) ! (row + i) = Some occ \<longrightarrow>
                  \<not> (rule_a_zero_div c width dm occ \<or> rule_b_zero_div c width dm occ))
           \<and> (int (row + n) < height - bottomReserved \<and> real n < c_height c \<longrightarrow>
                (\<exists>occ. rows (c_pos c) ! (row + n) = Some occ
                      \<and> (rule_a_zero_div c width dm occ \<or> rule_b_zero_div c width dm occ)))"
proof -
  let ?lane = "rows (c_pos c)"
  let ?bl = "marquee_blocked c width dm"
  have inr: "\<And>r. int r < height - bottomReserved \<Longrightarrow> r < length ?lane"
    using len by linarith
  have T: "TestFreeRows rows c row width height bottomReserved dm ds
           = free_run ?bl ?lane (c_height c) (height - bottomReserved) row 0 None"
    using scroll by (auto simp: TestFreeRows_def)
  from free_run_spec[of "height - bottomReserved" ?lane ?bl None "c_height c" row 0, OF inr]
  obtain k where k: "free_run ?bl ?lane (c_height c) (height - bottomReserved) row 0 None = Inr (0 + k)"
    "\<forall>i<k. free_cell ?bl (?lane ! (row + i)) \<and> int (row + i) < height - bottomReserved \<and> real (0 + i) < c_height c"
    "int (row + k) < height - bottomReserved \<and> real (0 + k) < c_height c \<longrightarrow> \<not> free_cell ?bl (?lane ! (row + k))"
    by (auto simp: free_cell_def)
  have A: "\<forall>i<k. \<forall>occ. ?lane ! (row + i) = Some occ \<longrightarrow>
             \<not> (rule_a_zero_div c width dm occ \<or> rule_b_zero_div c width dm occ)"
  proof (intro allI impI)
    fix i occ assume "i < k" and o: "?lane ! (row + i) = Some occ"
    then have "free_cell ?bl (Some occ)" using k(2) by metis
    then have "\<not> ?bl occ" by (simp add: free_cell_def)
    then show "\<not> (rule_a_zero_div c width dm occ \<or> rule_b_zero_div c width dm occ)"
      by (simp add: marquee_blocked_zero_div)
  qed
  have B: "int (row + k) < height - bottomReserved \<and> real k < c_height c \<longrightarrow>
                (\<exists>occ. ?lane ! (row + k) = Some occ
                   \<and> (rule_a_zero_div c width dm occ \<or> rule_b_zero_div c width dm occ))"
  proof
    assume h: "int (row + k) < height - bottomReserved \<and> real k < c_height c"
    then have "\<not> free_cell ?bl (?lane ! (row + k))" using k(3) by simp
    then obtain occ where o: "?lane ! (row + k) = Some occ" "?bl occ"
      by (auto simp: free_cell_def split: option.splits)
    then show "\<exists>occ. ?lane ! (row + k) = Some occ
                 \<and> (rule_a_zero_div c width dm occ \<or> rule_b_zero_div c width dm occ)"
      by (simp add: marquee_blocked_zero_div)
  qed
  show ?thesis using T k(1) A B by (intro exI[of _ k]) simp
qed

theorem TestFreeRows_zero_division_witness:
  "\<exists>n. TestFreeRows (one_lane Scroll [Some (mk_comment 8 Scroll 1 0), None])
          (mk_comment 10 Scroll 1 0) 0 0 1 0 5 5 = Inr n
       \<and> n = 0
       \<and> c_width (mk_comment 10 Scroll 1 0) + of_int 0 = 0
       \<and> c_width (mk_comment 8 Scroll 1 0) + of_int 0 = 0
       \<and> rule_a_zero_div (mk_comment 10 Scroll 1 0) 0 5 (mk_comment 8 Scroll 1 0)
       \<and> \<not> rule_b_zero_div (mk_comment 10 Scroll 1 0) 0 5 (mk_comment 8 Scroll 1 0)"
proof -
  let ?rows = "one_lane Scroll [Some (mk_comment 8 Scroll 1 0), None]"
  let ?c = "mk_comment 10 Scroll 1 0"
  have ra: "rule_a_zero_div ?c 0 5 (mk_comment 8 Scroll 1 0)"
    by (simp add: rule_a_zero_div_def mk_comment_def)
  have rb: "\<not> rule_b_zero_div ?c 0 5 (mk_comment 8 Scroll 1 0)"
    by (simp add: rule_b_zero_div_def mk_comment_def)
  have v: "TestFreeRows ?rows ?c 0 0 1 0 5 5 = Inr 0"
    by code_simp
  from TestFreeRows_zero_division[of ?c 1 0 ?rows 0 0 5 5]
  obtain n where "TestFreeRows ?rows ?c 0 0 1 0 5 5 = Inr n"
    by (auto simp: mk_comment_def one_lane_def)
  with v ra rb show ?thesis by (simp add: mk_comment_def)
qed

text \<open>
  The claim as stated fails on a stage of width 0 for a candidate and an occupant of
  width 0: both denominators are zero, and the row is blocking all the same, by
  condition (a) with the substituted threshold.
\<close>

theorem TestFreeRows_zero_division_counterexample:
  "c_width (mk_comment 10 Scroll 1 0) + of_int 0 = 0
   \<and> c_width (mk_comment 8 Scroll 1 0) + of_int 0 = 0
   \<and> TestFreeRows (one_lane Scroll [Some (mk_comment 8 Scroll 1 0), None])
        (mk_comment 10 Scroll 1 0) 0 0 1 0 5 5 = Inr 0
   \<and> TestFreeRows (one_lane Scroll [None, None])
        (mk_comment 10 Scroll 1 0) 0 0 1 0 5 5 = Inr 1"
proof -
  have a: "TestFreeRows (one_lane Scroll [Some (mk_comment 8 Scroll 1 0), None])
        (mk_comment 10 Scroll 1 0) 0 0 1 0 5 5 = Inr 0" by code_simp
  have b: "TestFreeRows (one_lane Scroll [None, None])
        (mk_comment 10 Scroll 1 0) 0 0 1 0 5 5 = Inr 1" by code_simp
  show ?thesis using a b by (simp add: mk_comment_def)
qed

section \<open>Properties of FindAlternativeRow\<close>

lemma alt_scan_upt:
  assumes "n \<le> length lane" "a \<le> n" "res < a" "\<forall>j<a. lane ! j \<noteq> None"
    "\<forall>j<a. occ_time lane res \<le> occ_time lane j" "\<forall>j<res. occ_time lane res < occ_time lane j"
  shows "\<exists>r. alt_scan lane [a..<n] res = Inr r \<and> alt_result lane n r"
  using assms
proof (induction "n - a" arbitrary: a res)
  case 0
  then have an: "a = n" by simp
  have nn: "\<not> (\<exists>i<n. lane ! i = None)" using 0(5) an by simp
  have n0: "n \<noteq> 0" using 0(4) an by simp
  have "alt_result lane n res"
    unfolding alt_result_def using nn n0 0(4,6,7) an by auto
  then show ?case using an by simp
next
  case (Suc k)
  then have lt: "a < n" by simp
  then have upt: "[a..<n] = a # [Suc a..<n]" by (simp add: upt_conv_Cons)
  have alen: "a < length lane" using lt Suc.prems(1) by simp
  have rlen: "res < length lane" using Suc.prems(3) alen by simp
  show ?case
  proof (cases "lane ! a")
    case None
    have "alt_scan lane [a..<n] res = Inr a" using upt alen None by simp
    moreover have "alt_result lane n a"
      using None lt Suc.prems(4) by (auto simp: alt_result_def)
    ultimately show ?thesis by blast
  next
    case (Some t)
    obtain r0 where r0: "lane ! res = Some r0"
      using Suc.prems(3,4) by (cases "lane ! res") auto
    let ?res' = "if c_timeline t < c_timeline r0 then a else res"
    have step: "alt_scan lane [a..<n] res = alt_scan lane [Suc a..<n] ?res'"
      using upt alen rlen Some r0 by simp
    have ta: "occ_time lane a = c_timeline t" using Some by (simp add: occ_time_def)
    have tr: "occ_time lane res = c_timeline r0" using r0 by (simp add: occ_time_def)
    have p1: "?res' < Suc a" using Suc.prems(3) by simp
    have p2: "\<forall>j<Suc a. lane ! j \<noteq> None" using Suc.prems(4) Some by (auto simp: less_Suc_eq)
    have p3: "\<forall>j<Suc a. occ_time lane ?res' \<le> occ_time lane j"
      using Suc.prems(5) ta tr by (auto simp: less_Suc_eq)
    have p4: "\<forall>j<?res'. occ_time lane ?res' < occ_time lane j"
      using Suc.prems(5,6) ta tr by (auto simp: less_Suc_eq)
    have k: "k = n - Suc a" using Suc.hyps(2) by simp
    from Suc.hyps(1)[OF k Suc.prems(1) _ p1 p2 p3 p4] lt
    show ?thesis using step by simp
  qed
qed

lemma alt_scan_spec:
  assumes "n \<le> length lane"
  shows "\<exists>r. alt_scan lane [0..<n] 0 = Inr r \<and> alt_result lane n r"
proof (cases n)
  case 0
  then show ?thesis by (simp add: alt_result_def)
next
  case (Suc m)
  then have upt: "[0..<n] = 0 # [Suc 0..<n]" by (simp add: upt_conv_Cons)
  have len0: "0 < length lane" using assms Suc by auto
  show ?thesis
  proof (cases "lane ! 0")
    case None
    have "alt_scan lane [0..<n] 0 = Inr 0" using upt len0 None by simp
    moreover have "alt_result lane n 0" using None Suc by (auto simp: alt_result_def)
    ultimately show ?thesis by blast
  next
    case (Some t)
    have step: "alt_scan lane [0..<n] 0 = alt_scan lane [Suc 0..<n] 0"
      using upt len0 Some by simp
    from alt_scan_upt[of n lane "Suc 0" 0] assms Suc Some
    show ?thesis using step by simp
  qed
qed

text \<open>
  Claim C2, as amended. \<open>FindAlternativeRow\<close> scans the rows \<open>0 \<le> row <
  usable_height - ceil(c.height)\<close>, the last of them one row above
  \<open>row_max = usable_height - c.height\<close>. It returns the first empty row among them if
  there is one; otherwise the first of the scanned rows whose occupant has the least
  appearance time; and row 0 when it scans no row at all.
\<close>

theorem FindAlternativeRow_result:
  assumes "nat (height - bottomReserved - \<lceil>c_height c\<rceil>) \<le> length (rows (c_pos c))"
  shows "\<exists>r. FindAlternativeRow rows c height bottomReserved = Inr r
           \<and> alt_result (rows (c_pos c)) (nat (height - bottomReserved - \<lceil>c_height c\<rceil>)) r"
  unfolding FindAlternativeRow_def using alt_scan_spec[OF assms] .

theorem FindAlternativeRow_result_witness:
  "FindAlternativeRow
     (one_lane Top [Some (mk_comment 3 Top 1 10), Some (mk_comment 1 Top 1 10),
                    Some (mk_comment 2 Top 1 10), None, None])
     (mk_comment 4 Top 1 10) 4 0 = Inr 1
   \<and> alt_result [Some (mk_comment 3 Top 1 10), Some (mk_comment 1 Top 1 10),
                 Some (mk_comment 2 Top 1 10), None, None] 3 1"
proof -
  let ?lane = "[Some (mk_comment 3 Top 1 10), Some (mk_comment 1 Top 1 10),
                Some (mk_comment 2 Top 1 10), None, None]"
  let ?c = "mk_comment 4 Top 1 10"
  have v: "FindAlternativeRow (one_lane Top ?lane) ?c 4 0 = Inr 1" by code_simp
  have n: "nat (4 - 0 - \<lceil>c_height ?c\<rceil>) = 3" by (simp add: mk_comment_def)
  have l: "one_lane Top ?lane (c_pos ?c) = ?lane" by (simp add: mk_comment_def one_lane_def)
  from FindAlternativeRow_result[of 4 0 ?c "one_lane Top ?lane"]
  obtain r where "FindAlternativeRow (one_lane Top ?lane) ?c 4 0 = Inr r"
    "alt_result ?lane 3 r"
    unfolding n l by auto
  with v show ?thesis by simp
qed

text \<open>
  The claim as stated fails on a stage of usable height 2 for a comment of height 1:
  \<open>row_max\<close> is 1, row 1 holds the occupant with the least appearance time, and row 0
  is returned; and with row 1 empty, row 0 is returned as well.
\<close>

theorem FindAlternativeRow_counterexample:
  "(2::real) - 0 - c_height (mk_comment 4 Top 1 10) = 1
   \<and> FindAlternativeRow
        (one_lane Top [Some (mk_comment 3 Top 1 10), Some (mk_comment 1 Top 1 10), None])
        (mk_comment 4 Top 1 10) 2 0 = Inr 0
   \<and> c_timeline (mk_comment 1 Top 1 10) < c_timeline (mk_comment 3 Top 1 10)
   \<and> FindAlternativeRow
        (one_lane Top [Some (mk_comment 3 Top 1 10), None, None])
        (mk_comment 4 Top 1 10) 2 0 = Inr 0"
proof -
  have a: "FindAlternativeRow
        (one_lane Top [Some (mk_comment 3 Top 1 10), Some (mk_comment 1 Top 1 10), None])
        (mk_comment 4 Top 1 10) 2 0 = Inr 0" by code_simp
  have b: "FindAlternativeRow
        (one_lane Top [Some (mk_comment 3 Top 1 10), None, None])
        (mk_comment 4 Top 1 10) 2 0 = Inr 0" by code_simp
  show ?thesis using a b by (simp add: mk_comment_def)
qed

section \<open>Properties of ConvertFlashRotation\<close>

lemma tan40_pos: "0 < tan (2 * pi / 9)"
  by (rule tan_gt_zero) (simp_all add: field_simps)

lemma deg45: "flash_degY 45 = 45" "WrapAngle 0 = 0"
  by (simp_all add: flash_degY_def WrapAngle_def)

lemma trZ_ex: "flash_trZ 45 0 2 0 2 2 = 1"
  by (simp add: flash_trZ_def flash_trX_def flash_rotY_def flash_rotZ_def deg45 cos_45 sin_45 field_simps)


lemma deg40: "40 * pi / 180 = 2 * pi / (9::real)" by simp

text \<open>
  Claim C6, as amended. In \<open>ConvertFlashRotation\<close>, with \<open>FOV = width * tan(40
  degrees) / 2\<close> and \<open>depth\<close> the value of \<open>trZ\<close>, for every input where \<open>math.cos(rotY)\<close>
  and \<open>FOV + depth\<close> are not zero, the scale factor is \<open>FOV / (FOV + depth)\<close>: the
  anchor point returned is the anchor point scaled by it about the centre of the stage,
  and the two scales returned are its absolute value times 100.
\<close>

theorem ConvertFlashRotation_scale:
  assumes F: "F = of_int width * tan (40 * pi / 180) / 2"
    and d: "depth = flash_trZ rotY rotZ X Y width height"
    and c: "cos (flash_rotY rotY) \<noteq> 0"
    and nz: "F + depth \<noteq> 0"
  shows "flash_scaleXY rotY rotZ X Y width height = F / (F + depth)
       \<and> (\<exists>ox oy oz. ConvertFlashRotation rotY rotZ X Y width height
            = Inr ((flash_trX rotY rotZ X Y width height - of_int width / 2) * (F / (F + depth))
                     + of_int width / 2,
                   (flash_trY rotY rotZ X Y width height - of_int height / 2) * (F / (F + depth))
                     + of_int height / 2,
                   ox, oy, oz, \<bar>F / (F + depth)\<bar> * 100, \<bar>F / (F + depth)\<bar> * 100))"
proof -
  have FF: "flash_FOV width = F" by (simp add: flash_FOV_def F)
  have s: "flash_scaleXY rotY rotZ X Y width height = F / (F + depth)"
    using nz by (simp add: flash_scaleXY_def FF d)
  define k where "k = F / (F + depth)"
  have sk: "flash_scaleXY rotY rotZ X Y width height = k" using s by (simp add: k_def)
  obtain ox oy oz where o: "flash_out rotY rotZ = (ox, oy, oz)" by (cases "flash_out rotY rotZ")
  have "\<exists>ox oy oz. ConvertFlashRotation rotY rotZ X Y width height
            = Inr ((flash_trX rotY rotZ X Y width height - of_int width / 2) * k
                     + of_int width / 2,
                   (flash_trY rotY rotZ X Y width height - of_int height / 2) * k
                     + of_int height / 2,
                   ox, oy, oz, \<bar>k\<bar> * 100, \<bar>k\<bar> * 100)"
    unfolding ConvertFlashRotation_def Let_def sk o using c by (cases "k < 0") simp_all
  then show ?thesis using sk unfolding k_def by simp
qed

lemma cos45_nz: "cos (flash_rotY 45) \<noteq> 0"
  by (simp add: flash_rotY_def deg45 cos_45)

theorem ConvertFlashRotation_scale_witness:
  "flash_scaleXY 45 0 2 0 2 2 = tan (40 * pi / 180) / (tan (40 * pi / 180) + 1)"
proof -
  have "tan (40 * pi / 180) + 1 \<noteq> 0" using tan40_pos by (simp add: add_pos_pos)
  then show ?thesis
    using ConvertFlashRotation_scale[of "tan (40 * pi / 180)" 2 1 45 0 2 0 2] cos45_nz trZ_ex
    by simp
qed

text \<open>
  The claim as stated, with \<open>FOV = width * tan(40 degrees)\<close>, fails for a rotation of
  45 degrees about the y axis on a stage of width 2, at the anchor point (2, 0): the
  depth is 1, and the scale factor is not \<open>FOV / (FOV + depth)\<close> for that \<open>FOV\<close>.
\<close>

theorem ConvertFlashRotation_scale_counterexample:
  "of_int 2 * tan (40 * pi / 180) + flash_trZ 45 0 2 0 2 2 \<noteq> 0
   \<and> flash_scaleXY 45 0 2 0 2 2
       \<noteq> of_int 2 * tan (40 * pi / 180)
           / (of_int 2 * tan (40 * pi / 180) + flash_trZ 45 0 2 0 2 2)"
proof -
  define t where "t = tan (40 * pi / 180)"
  have tp: "0 < t" using tan40_pos by (simp add: t_def)
  have sc: "flash_scaleXY 45 0 2 0 2 2 = t / (t + 1)"
    using tp by (simp add: flash_scaleXY_def flash_FOV_def trZ_ex t_def)
  have ne: "t / (t + 1) \<noteq> 2 * t / (2 * t + 1)"
  proof
    assume "t / (t + 1) = 2 * t / (2 * t + 1)"
    then have "t * (2 * t + 1) = 2 * t * (t + 1)" using tp by (simp add: field_simps)
    then have "t = 0" by (simp add: algebra_simps)
    then show False using tp by simp
  qed
  show ?thesis using tp sc ne unfolding trZ_ex t_def [symmetric] by simp
qed

section \<open>Properties of the lane grid\<close>

lemma length_mark_from: "length (mark_from lane c i n) = length lane"
  by (induction n arbitrary: lane i) simp_all

lemma length_MarkCommentRow: "length (MarkCommentRow rows c row m) = length (rows m)"
  by (simp add: MarkCommentRow_def length_mark_from)

lemma length_place_comment:
  assumes "place_comment rows c width height bottomReserved dm ds reduced = Inr (rows', x)"
  shows "length (rows' m) = length (rows m)"
  using assms
  by (auto simp: place_comment_def length_MarkCommentRow
           split: sum.splits option.splits if_splits)

lemma length_process_entry:
  assumes "process_entry lib width height bottomReserved fontsize dm ds flt reduced i s = Inr s'"
  shows "length (r_rows s' m) = length (r_rows s m)"
  using assms
  by (auto simp: process_entry_def length_place_comment
           split: entry.splits sum.splits option.splits if_splits prod.splits)

lemma length_process_loop:
  "length (r_rows (fst (process_loop lib width height bottomReserved fontsize dm ds flt reduced
                          comments s)) m)
   = length (r_rows s m)"
proof (induction comments arbitrary: s)
  case Nil
  show ?case by simp
next
  case (Cons i comments)
  show ?case
  proof (cases "process_entry lib width height bottomReserved fontsize dm ds flt reduced i s")
    case (Inl e)
    then show ?thesis by simp
  next
    case (Inr s')
    then show ?thesis using Cons.IH[of s'] length_process_entry[OF Inr] by simp
  qed
qed

lemma UNIV_mode: "(UNIV :: mode set) = {Scroll, Top, Bottom, ScrollReverse}"
proof -
  have "m \<in> {Scroll, Top, Bottom, ScrollReverse}" for m by (cases m) simp_all
  then show ?thesis by blast
qed

text \<open>
  Claim C9, as amended. \<open>ProcessComments\<close> creates one lane array for each of the four
  mode values, each of length \<open>usable_height + 1\<close> with \<open>usable_height = stage_height -
  bottom_reserved\<close> (and empty when that is negative), and the grid keeps this shape to
  the end of the run.
\<close>

theorem lane_grid_shape:
  "(UNIV :: mode set) = {Scroll, Top, Bottom, ScrollReverse}
   \<and> card (UNIV :: mode set) = 4
   \<and> new_rows height bottomReserved m = replicate (nat (height - bottomReserved + 1)) None
   \<and> length (r_rows (fst (ProcessComments lib comments width height bottomReserved fontsize
                             dm ds flt reduced)) m)
       = nat (height - bottomReserved + 1)"
  by (simp add: UNIV_mode ProcessComments_def length_process_loop new_rows_def)

theorem lane_grid_shape_witness:
  "length (new_rows 10 0 Top) = 11
   \<and> length (r_rows (fst (ProcessComments example_lib [Regular (mk_comment 0 Top 2 10)]
                             100 10 0 25 5 5 [] False)) Top) = 11"
  using lane_grid_shape[of 10 0 Top example_lib "[Regular (mk_comment 0 Top 2 10)]" 100 25 5 5
                          "[]" False]
  by simp

text \<open>The claim as stated fails for a stage of height 10 with nothing reserved.\<close>

theorem lane_grid_length_counterexample:
  "length (new_rows 10 0 Scroll) = 11 \<and> (10::int) - 0 = 10"
  by (simp add: new_rows_def)

section \<open>Properties of the colours of the event lines\<close>

lemma bind_e_InrE:
  assumes "bind_e m k = Inr y"
  obtains x where "m = Inr x" and "k x = Inr y"
  using assms by (cases m) (simp_all add: bind_e_def)

lemma colour_tags_PrimaryColour:
  "PrimaryColour s \<in> set (colour_tags RGB)
   \<longleftrightarrow> RGB \<noteq> 0xFFFFFF \<and> s = ConvertColor RGB 1280 576"
  by (auto simp: colour_tags_def)

lemma WriteComment_PrimaryColour:
  "PrimaryColour s \<in> set (d_styles (WriteComment c row width height bottomReserved fontsize
                                        duration_marquee duration_still))
   \<longleftrightarrow> c_color c \<noteq> 0xFFFFFF \<and> s = ConvertColor (c_color c) 1280 576"
  by (cases "c_pos c") (auto simp: WriteComment_def Let_def colour_tags_PrimaryColour)

lemma alpha_tags_PrimaryColour: "PrimaryColour s \<notin> set (alpha_tags a b l)"
  by (simp add: alpha_tags_def)

lemma rot_tag_PrimaryColour: "PrimaryColour s \<noteq> rot_tag r"
  by (simp add: rot_tag_def split: prod.splits)

lemma bind_e_InrE':
  assumes "bind_e m k = Inr y"
  obtains x where "k x = Inr y"
  using assms by (cases m) (simp_all add: bind_e_def)

lemma if_Inl_InrE:
  assumes "(if b then Inl e else t) = Inr y"
  obtains "t = Inr y"
  using assms by (cases b) simp_all

lemma positioned_line_styles:
  assumes "positioned_line lib c width height = Inr line"
  shows "\<exists>mv r1 tr fn z al bd.
           d_styles line = Org (py_trunc (of_int width / 2)) (py_trunc (of_int height / 2)) # mv
                           @ rot_tag r1 # tr @ fn @ Fs z # colour_tags (p_color c) @ al @ bd
           \<and> (\<forall>s. PrimaryColour s \<notin> set mv) \<and> (\<forall>s. PrimaryColour s \<notin> set tr)
           \<and> (\<forall>s. PrimaryColour s \<notin> set fn) \<and> (\<forall>s. PrimaryColour s \<notin> set al)
           \<and> (\<forall>s. PrimaryColour s \<notin> set bd)"
  using assms
  unfolding positioned_line_def Let_def
  apply (elim bind_e_InrE' if_Inl_InrE)
  apply (drule sym[of "Inr _" "Inr line"])
  apply (simp only: sum.inject)
  apply (simp only: dialogue.select_convs append_Cons append_Nil)
  apply (intro exI conjI)
       apply (rule refl)
      apply (simp_all add: alpha_tags_PrimaryColour rot_tag_PrimaryColour)
  done

lemma positioned_line_PrimaryColour:
  assumes "positioned_line lib c width height = Inr line"
  shows "PrimaryColour s \<in> set (d_styles line)
         \<longleftrightarrow> p_color c \<noteq> 0xFFFFFF \<and> s = ConvertColor (p_color c) 1280 576"
proof -
  from positioned_line_styles[OF assms] obtain mv r1 tr fn z al bd where
    st: "d_styles line = Org (py_trunc (of_int width / 2)) (py_trunc (of_int height / 2)) # mv
                           @ rot_tag r1 # tr @ fn @ Fs z # colour_tags (p_color c) @ al @ bd"
    and no: "\<forall>s. PrimaryColour s \<notin> set mv" "\<forall>s. PrimaryColour s \<notin> set tr"
      "\<forall>s. PrimaryColour s \<notin> set fn" "\<forall>s. PrimaryColour s \<notin> set al"
      "\<forall>s. PrimaryColour s \<notin> set bd"
    by blast
  show ?thesis
    unfolding st using no
    by (simp add: rot_tag_PrimaryColour colour_tags_PrimaryColour)
qed

text \<open>
  Claim C10. Both renderers, \<open>WriteComment\<close> and \<open>WriteCommentBilibiliPositioned\<close>,
  call \<open>ConvertColor\<close> with the colour alone, so the resolution is the default 1280 by
  576 whatever the stage size: in every event line they produce for a comment whose
  colour is neither black nor white, the colour tag is the one of the matrix conversion,
  and there is no other colour tag.
\<close>

theorem renderer_colour_matrix:
  assumes "RGB \<noteq> 0x000000" and "RGB \<noteq> 0xFFFFFF"
  shows "(c_color c = RGB \<longrightarrow>
            (PrimaryColour s \<in> set (d_styles (WriteComment c row width height bottomReserved
                                                  fontsize duration_marquee duration_still))
             \<longleftrightarrow> s = matrix_colour RGB))
       \<and> (p_color p = RGB \<and> positioned_line lib p width height = Inr line \<longrightarrow>
            (PrimaryColour s \<in> set (d_styles line) \<longleftrightarrow> s = matrix_colour RGB))
       \<and> colour_tags RGB = [PrimaryColour (matrix_colour RGB)]
       \<and> ConvertColor RGB 1280 576 = matrix_colour RGB"
proof -
  have m: "ConvertColor RGB 1280 576 = matrix_colour RGB"
    using assms by (simp add: ConvertColor_def)
  have t: "colour_tags RGB = [PrimaryColour (matrix_colour RGB)]"
    using assms m by (simp add: colour_tags_def)
  have w: "c_color c = RGB \<longrightarrow>
            (PrimaryColour s \<in> set (d_styles (WriteComment c row width height bottomReserved
                                                  fontsize duration_marquee duration_still))
             \<longleftrightarrow> s = matrix_colour RGB)"
    using assms m by (auto simp: WriteComment_PrimaryColour)
  have p: "p_color p = RGB \<and> positioned_line lib p width height = Inr line \<longrightarrow>
            (PrimaryColour s \<in> set (d_styles line) \<longleftrightarrow> s = matrix_colour RGB)"
    using assms m by (auto simp: positioned_line_PrimaryColour)
  from w p t m show ?thesis by blast
qed

theorem renderer_colour_matrix_witness:
  "(PrimaryColour ''0200E9''
      \<in> set (d_styles (WriteComment ((mk_comment 0 Scroll 25 50)\<lparr>c_color := 0xFF0000\<rparr>) 0 100 100
                           0 25 5 5)))
   \<and> swap_colour 0xFF0000 = ''0000FF''
   \<and> ConvertColor 0xFF0000 100 100 = ''0000FF''"
proof -
  have c: "matrix_colour 0xFF0000 = ''0200E9''" by code_simp
  have d: "swap_colour 0xFF0000 = ''0000FF''" by code_simp
  have e: "ConvertColor 0xFF0000 100 100 = ''0000FF''" by code_simp
  from renderer_colour_matrix[of "0xFF0000" "(mk_comment 0 Scroll 25 50)\<lparr>c_color := 0xFF0000\<rparr>"
         "''0200E9''" 0 100 100 0 25 5 5]
  have "PrimaryColour ''0200E9''
      \<in> set (d_styles (WriteComment ((mk_comment 0 Scroll 25 50)\<lparr>c_color := 0xFF0000\<rparr>) 0 100 100
                           0 25 5 5))"
    using c by (simp add: mk_comment_def)
  with d e show ?thesis by simp
qed

section \<open>Properties of the positioned comments\<close>

lemma GetPosition_JNull: "GetPosition lib Z JNull b = Inl TypeError"
  by (simp add: GetPosition_def)

lemma positioned_undecodable_dropped:
  assumes "loads lib (p_text p) = None"
  shows "WriteCommentBilibiliPositioned lib f warnings p width height
         = Inr (f, warnings @ [p_text p])"
  using assms
  by (simp add: WriteCommentBilibiliPositioned_def positioned_line_def bind_e_def)

text \<open>
  Claim C5 fails in the code. A positioned comment whose payload is a list of at least
  five items with \<open>null\<close> as the first one, the position \<open>x\<close>, makes \<open>GetPosition\<close> raise
  \<open>TypeError\<close>, which \<open>WriteCommentBilibiliPositioned\<close> does not catch: no warning is
  logged, and the exception ends \<open>ProcessComments\<close> with the comments after it not
  processed.
\<close>

theorem positioned_null_position_raises:
  assumes "loads lib (p_text p) = Some (JArray (JNull # args))" and "4 \<le> length args"
  shows "WriteCommentBilibiliPositioned lib f warnings p width height = Inl TypeError
       \<and> ProcessComments lib (Bilipos p # comments) width height bottomReserved fontsize
            duration_marquee duration_still filters_regex reduced
          = (\<lparr>r_rows = new_rows height bottomReserved, r_f = [], r_log = [], r_placed = []\<rparr>,
             Some TypeError)"
proof -
  have l: "positioned_line lib p width height = Inl TypeError"
    using assms
    by (simp add: positioned_line_def py_list_def bind_e_def get_default_def GetPosition_JNull)
  then have w: "WriteCommentBilibiliPositioned lib f warnings p width height = Inl TypeError"
    for f warnings
    by (simp add: WriteCommentBilibiliPositioned_def)
  show ?thesis
    using w by (simp add: ProcessComments_def process_entry_def)
qed

theorem positioned_null_position_raises_witness:
  "snd (ProcessComments example_lib
          [Bilipos \<lparr>p_timeline = 0, p_text = ''[null,0,1,4.5,0]'', p_color = 0xFFFFFF,
                     p_size = 25\<rparr>,
           Regular (mk_comment 1 Top 1 50)] 100 3 0 25 5 5 [] False) = Some TypeError
   \<and> r_f (fst (ProcessComments example_lib
          [Bilipos \<lparr>p_timeline = 0, p_text = ''[null,0,1,4.5,0]'', p_color = 0xFFFFFF,
                     p_size = 25\<rparr>,
           Regular (mk_comment 1 Top 1 50)] 100 3 0 25 5 5 [] False)) = []
   \<and> r_log (fst (ProcessComments example_lib
          [Bilipos \<lparr>p_timeline = 0, p_text = ''[null,0,1,4.5,0]'', p_color = 0xFFFFFF,
                     p_size = 25\<rparr>,
           Regular (mk_comment 1 Top 1 50)] 100 3 0 25 5 5 [] False)) = []"
  using positioned_null_position_raises[where lib = example_lib
        and p = "\<lparr>p_timeline = 0, p_text = ''[null,0,1,4.5,0]'', p_color = 0xFFFFFF, p_size = 25\<rparr>"
        and args = "[JInt 0, JInt 1, JFloat 4.5, JInt 0]"
        and comments = "[Regular (mk_comment 1 Top 1 50)]"
        and width = 100 and height = 3 and bottomReserved = 0 and fontsize = 25
        and duration_marquee = 5 and duration_still = 5 and filters_regex = "[]"
        and reduced = False and f = "[]" and warnings = "[]"]
  by (simp add: example_lib_def)

section \<open>Properties of the run\<close>













section \<open>Properties of the still comments\<close>

















end
